theory Spec2Isabelle
  imports Main "HOL-Library.Word"
begin

section \<open>The traffic plugin: query classification and response synthesis\<close>

text \<open>
  A shallow embedding of \<^verbatim>\<open>plugin/traffic/traffic.go\<close>: the handler \<^verbatim>\<open>ServeDNS\<close>, its
  helper \<^verbatim>\<open>serveEndpoint\<close> and the synthetic \<^verbatim>\<open>soa\<close>. Go strings are byte strings
  (\<open>string\<close>), Go's \<^verbatim>\<open>int\<close> is \<open>int\<close> (64 bits where the range matters, in \<open>Atoi\<close>),
  \<^verbatim>\<open>uint16\<close> and \<^verbatim>\<open>uint32\<close> are words. A run-time panic is the value \<open>Inl\<close> of the result;
  the message handed to \<^verbatim>\<open>WriteMsg\<close> is the value \<open>Inr\<close>: every returning path of the
  source writes exactly one message and returns \<^verbatim>\<open>(0, nil)\<close>.
\<close>

subsection \<open>Go's standard library: strings, strconv, fmt\<close>

definition ToLower_byte :: "char \<Rightarrow> char" where
  "ToLower_byte ch =
     (let n = (of_char ch :: nat) in if 65 \<le> n \<and> n \<le> 90 then char_of (n + 32) else ch)"

text \<open>\<^verbatim>\<open>strings.ToLower\<close> on the ASCII names the DNS library hands out.\<close>

definition ToLower :: "string \<Rightarrow> string" where
  "ToLower s = map ToLower_byte s"

text \<open>\<^verbatim>\<open>len(s) >= len(suffix) && s[len(s)-len(suffix):] == suffix\<close>\<close>

definition HasSuffix :: "string \<Rightarrow> string \<Rightarrow> bool" where
  "HasSuffix s suffix =
     (length suffix \<le> length s \<and> drop (length s - length suffix) s = suffix)"

text \<open>\<^verbatim>\<open>len(s) >= len(prefix) && s[:len(prefix)] == prefix\<close>\<close>

definition HasPrefix :: "string \<Rightarrow> string \<Rightarrow> bool" where
  "HasPrefix s prefix = (length prefix \<le> length s \<and> take (length prefix) s = prefix)"

text \<open>\<^verbatim>\<open>strings.Index\<close>: the index of the first instance of \<open>substr\<close>, or \<open>-1\<close>.\<close>

fun Index :: "string \<Rightarrow> string \<Rightarrow> int" where
  "Index [] substr = (if substr = [] then 0 else -1)"
| "Index (x # xs) substr =
     (if HasPrefix (x # xs) substr then 0
      else (let i = Index xs substr in if i = -1 then -1 else i + 1))"

definition is_digit :: "char \<Rightarrow> bool" where
  "is_digit ch = (let n = (of_char ch :: nat) in 48 \<le> n \<and> n \<le> 57)"

fun decimal_value :: "string \<Rightarrow> int \<Rightarrow> int" where
  "decimal_value [] acc = acc"
| "decimal_value (d # ds) acc = decimal_value ds (acc * 10 + (of_char d - 48))"

text \<open>
  \<^verbatim>\<open>strconv.Atoi\<close> with a 64-bit \<^verbatim>\<open>int\<close>: an optional sign, then one or more decimal
  digits; \<open>None\<close> is the syntax or the range error.
\<close>

definition Atoi :: "string \<Rightarrow> int option" where
  "Atoi s =
     (let neg = (s \<noteq> [] \<and> hd s = CHR ''-'');
          ds = (if s \<noteq> [] \<and> (hd s = CHR ''-'' \<or> hd s = CHR ''+'') then tl s else s)
      in if ds = [] \<or> \<not> list_all is_digit ds then None
         else (let n = decimal_value ds 0
               in if neg then (if n > 2 ^ 63 then None else Some (- n))
                  else (if n \<ge> 2 ^ 63 then None else Some n)))"

text \<open>\<^verbatim>\<open>%d\<close> of \<^verbatim>\<open>fmt.Sprintf\<close> on a slice index (never negative).\<close>

fun itoa :: "nat \<Rightarrow> string" where
  "itoa n = (if n < 10 then [char_of (48 + n)] else itoa (n div 10) @ [char_of (48 + n mod 10)])"

declare itoa.simps [simp del]

subsection \<open>The DNS library: names and labels\<close>

text \<open>
  \<^verbatim>\<open>dns.Split\<close>: the start index of every label. A dot separates labels when an even
  number of backslashes stands before it and it is not the last byte of the name; the
  scan carries the index \<open>i\<close> and the count \<open>k\<close> of backslashes just before it.
\<close>

fun Split_from :: "string \<Rightarrow> nat \<Rightarrow> nat \<Rightarrow> nat list" where
  "Split_from [] i k = []"
| "Split_from [ch] i k = []"
| "Split_from (ch # rest) i k =
     (if ch = CHR ''.'' \<and> even k then Suc i # Split_from rest (Suc i) 0
      else Split_from rest (Suc i) (if ch = CHR 0x5C then Suc k else 0))"

definition Split :: "string \<Rightarrow> nat list" where
  "Split s = (if s = ''.'' then [] else 0 # Split_from s 0 0)"

definition CountLabel :: "string \<Rightarrow> nat" where
  "CountLabel s = (if s = ''.'' then 0 else length (Split s))"

definition IsFqdn :: "string \<Rightarrow> bool" where
  "IsFqdn s = (s \<noteq> [] \<and> last s = CHR ''.'')"

definition Fqdn :: "string \<Rightarrow> string" where
  "Fqdn s = (if IsFqdn s then s else s @ ''.'')"

text \<open>Go's \<^verbatim>\<open>s[a:b]\<close> for \<open>a \<le> b \<le> len(s)\<close>.\<close>

definition slice :: "string \<Rightarrow> nat \<Rightarrow> nat \<Rightarrow> string" where
  "slice s a b = take (b - a) (drop a s)"

fun labels_from :: "string \<Rightarrow> nat \<Rightarrow> nat list \<Rightarrow> nat \<Rightarrow> string list" where
  "labels_from s begin [] fqdnEnd = [slice s begin fqdnEnd]"
| "labels_from s begin (e # es) fqdnEnd = slice s begin (e - 1) # labels_from s e es fqdnEnd"

text \<open>
  \<^verbatim>\<open>dns.SplitDomainName\<close>: the labels of a name; the empty string and the root have none.
\<close>

definition SplitDomainName :: "string \<Rightarrow> string list" where
  "SplitDomainName s =
     (if s = [] then []
      else (let idx = Split s;
                fqdnEnd = (if IsFqdn s then length s - 1 else length s)
            in if idx = [] then [] else labels_from s 0 (tl idx) fqdnEnd))"

text \<open>
  \<^verbatim>\<open>dns.PrevLabel\<close>: the index of the label \<open>n\<close> labels from the right; the flag says that
  the start of the name was overshot.
\<close>

definition PrevLabel :: "string \<Rightarrow> nat \<Rightarrow> nat \<times> bool" where
  "PrevLabel s n =
     (if n = 0 then (length s, False)
      else (let lab = Split s
            in if lab = [] then (0, True)
               else if n > length lab then (0, True)
               else (lab ! (length lab - n), False)))"

subsection \<open>Helpers of the repository that the handler calls\<close>

text \<open>
  Modelled from the spec: \<^verbatim>\<open>dnsutil.TrimZone\<close> (package \<^verbatim>\<open>plugin/pkg/dnsutil\<close>) is not
  among the source files. The spec (4.1) has the cluster identifier be the query name with
  the matched zone suffix removed, following the label boundaries of DNS names: as many
  labels as the zone has are cut from the right, with the dot before them; when nothing
  remains the result is empty (the handler discards the error of \<^verbatim>\<open>TrimZone\<close>).
\<close>

definition TrimZone :: "string \<Rightarrow> string \<Rightarrow> string" where
  "TrimZone q z =
     (let zl = CountLabel z;
          (i, ok) = PrevLabel q zl
      in if ok \<or> int i - 1 < 0 then [] else take (i - 1) q)"

text \<open>
  Modelled from the spec: \<^verbatim>\<open>dnsutil.Join\<close> is not among the source files. The spec (4.3)
  has the name server and the mailbox of the synthetic SOA be fixed labels joined under
  the zone: the labels with dots between them, fully qualified.
\<close>

definition Join :: "string \<Rightarrow> string \<Rightarrow> string" where
  "Join l z = (if z = ''.'' then l @ ''.'' else Fqdn (l @ ''.'' @ z))"

subsection \<open>Messages and resource records\<close>

type_synonym IP = "8 word list"

text \<open>\<^verbatim>\<open>net.IP.To4\<close>: the 4-byte form of an IPv4 address, \<open>None\<close> for \<^verbatim>\<open>nil\<close>.\<close>

definition To4 :: "IP \<Rightarrow> IP option" where
  "To4 ip =
     (if length ip = 4 then Some ip
      else if length ip = 16 \<and> list_all (\<lambda>b. b = 0) (take 10 ip) \<and> ip ! 10 = 0xff \<and>
              ip ! 11 = 0xff
           then Some (drop 12 ip)
      else None)"

record dns_RR_Header =
  Name :: string
  Rrtype :: "16 word"
  Class :: "16 word"
  Ttl :: "32 word"

text \<open>
  The records the handler builds. \<open>dns_SRV\<close>: header, priority, weight, port, target.
  \<open>dns_SOA\<close>: header, name server, mailbox, serial, refresh, retry, expire, minimum TTL.
\<close>

datatype dns_RR =
    dns_A dns_RR_Header IP
  | dns_AAAA dns_RR_Header IP
  | dns_SRV dns_RR_Header "16 word" "16 word" "16 word" string
  | dns_SOA dns_RR_Header string string "32 word" "32 word" "32 word" "32 word" "32 word"

definition dns_TypeA :: "16 word" where "dns_TypeA = 1"
definition dns_TypeSOA :: "16 word" where "dns_TypeSOA = 6"
definition dns_TypeAAAA :: "16 word" where "dns_TypeAAAA = 28"
definition dns_TypeSRV :: "16 word" where "dns_TypeSRV = 33"
definition dns_ClassINET :: "16 word" where "dns_ClassINET = 1"
definition dns_RcodeSuccess :: int where "dns_RcodeSuccess = 0"
definition dns_RcodeNameError :: int where "dns_RcodeNameError = 3"

record dns_Question =
  Q_Name :: string
  Qtype :: "16 word"
  Qclass :: "16 word"

record dns_Msg =
  Id :: "16 word"
  Response :: bool
  Opcode :: int
  Authoritative :: bool
  RecursionDesired :: bool
  CheckingDisabled :: bool
  Rcode :: int
  Question :: "dns_Question list"
  Answer :: "dns_RR list"
  Ns :: "dns_RR list"
  Extra :: "dns_RR list"

text \<open>\<^verbatim>\<open>new(dns.Msg)\<close> followed by \<^verbatim>\<open>SetReply(request)\<close>.\<close>

definition SetReply :: "dns_Msg \<Rightarrow> dns_Msg" where
  "SetReply request =
     \<lparr>Id = Id request, Response = True, Opcode = Opcode request, Authoritative = False,
      RecursionDesired = (if Opcode request = 0 then RecursionDesired request else False),
      CheckingDisabled = (if Opcode request = 0 then CheckingDisabled request else False),
      Rcode = dns_RcodeSuccess,
      Question = (if length (Question request) > 0 then [Question request ! 0] else []),
      Answer = [], Ns = [], Extra = []\<rparr>"

subsection \<open>The request and the assignment provider\<close>

text \<open>
  \<^verbatim>\<open>request.Request\<close>: the query and the matched zone (the writer \<^verbatim>\<open>W\<close> is the result of
  the model).
\<close>

record Request =
  Req :: dns_Msg
  Zone :: string

text \<open>
  Modelled from the spec: the methods of \<^verbatim>\<open>request.Request\<close> are not among the source
  files. The spec (4.1, 4.3) matches the query name case-insensitively and names the
  records after the original query name: \<open>Request_Name\<close> is the name of the first question
  in lower case, \<open>Request_QName\<close> the name as it was asked, \<open>Request_QType\<close> its type; a
  query without a question has the root name and type 0.
\<close>

definition Request_Name :: "Request \<Rightarrow> string" where
  "Request_Name state =
     (if Question (Req state) = [] then ''.'' else ToLower (Q_Name (Question (Req state) ! 0)))"

definition Request_QName :: "Request \<Rightarrow> string" where
  "Request_QName state =
     (if Question (Req state) = [] then ''.'' else Q_Name (Question (Req state) ! 0))"

definition Request_QType :: "Request \<Rightarrow> 16 word" where
  "Request_QType state =
     (if Question (Req state) = [] then 0 else Qtype (Question (Req state) ! 0))"

record SocketAddress =
  Address :: IP
  Port :: "16 word"

text \<open>
  The client of the assignment provider (\<^verbatim>\<open>xds.Client\<close>, not among the source files) is
  a parameter: \<open>Select\<close> gives one endpoint of a cluster (\<open>None\<close> for \<^verbatim>\<open>nil\<close>) and
  whether the cluster exists, \<open>All'\<close> gives every endpoint of it, both under the health
  flag. The two fields are the answers the provider gives during one query; nothing
  relates what \<open>Select\<close> and \<open>All'\<close> answer for the same cluster.
\<close>

record Client =
  Select :: "string \<Rightarrow> bool \<Rightarrow> SocketAddress option \<times> bool"
  All' :: "string \<Rightarrow> bool \<Rightarrow> SocketAddress list \<times> bool"

datatype error = IndexOutOfRange

record Traffic =
  c :: Client
  node :: string
  mgmt :: string
  hosts :: "string list"
  id' :: string
  health :: bool
  origins :: "string list"
  Next :: "dns_Msg \<Rightarrow> error + dns_Msg"

subsection \<open>The handler\<close>

text \<open>
  \<^verbatim>\<open>soa\<close>: the synthetic SOA of a zone. The serial is the clock at synthesis time,
  \<^verbatim>\<open>uint32(time.Now().UTC().Unix())\<close>: the parameter \<open>now\<close>.
\<close>

definition soa :: "32 word \<Rightarrow> string \<Rightarrow> dns_RR list" where
  "soa now z =
     [dns_SOA \<lparr>Name = z, Rrtype = dns_TypeSOA, Class = dns_ClassINET, Ttl = 5\<rparr>
        (Join ''ns'' z) (Join ''coredns'' z) now 14400 3600 604800 5]"

text \<open>
  \<^verbatim>\<open>serveEndpoint\<close>. The read \<^verbatim>\<open>sockaddrs[nr]\<close> panics in Go when \<open>nr\<close> is negative or not
  below the length of the slice; the guard before it is the source's \<^verbatim>\<open>len(sockaddrs) < nr\<close>.
\<close>

definition serveEndpoint :: "Traffic \<Rightarrow> 32 word \<Rightarrow> Request \<Rightarrow> string \<Rightarrow> string \<Rightarrow> error + dns_Msg" where
  "serveEndpoint t now state endpoint cluster =
     (let m = (SetReply (Req state))\<lparr>Authoritative := True\<rparr>;
          i = Index endpoint ''-''
      in if i = -1 \<or> i = int (length endpoint)
         then Inr (m\<lparr>Ns := soa now (Zone state), Rcode := dns_RcodeNameError\<rparr>)
         else
          (let end' = drop (nat (i + 1)) endpoint
           in case Atoi end' of
                None \<Rightarrow> Inr (m\<lparr>Ns := soa now (Zone state), Rcode := dns_RcodeNameError\<rparr>)
              | Some nr \<Rightarrow>
                 (let sockaddrs = fst (All' (c t) cluster (health t))
                  in if int (length sockaddrs) < nr
                     then Inr (m\<lparr>Ns := soa now (Zone state), Rcode := dns_RcodeNameError\<rparr>)
                     else if nr < 0 \<or> int (length sockaddrs) \<le> nr then Inl IndexOutOfRange
                     else
                      (let addr = Address (sockaddrs ! nat nr)
                       in if Request_QType state = dns_TypeA then
                            (if To4 addr = None then Inr (m\<lparr>Ns := soa now (Zone state)\<rparr>)
                             else Inr (m\<lparr>Answer :=
                                    [dns_A \<lparr>Name = Request_QName state, Rrtype = dns_TypeA,
                                             Class = dns_ClassINET, Ttl = 5\<rparr> addr]\<rparr>))
                          else if Request_QType state = dns_TypeAAAA then
                            (if To4 addr \<noteq> None then Inr (m\<lparr>Ns := soa now (Zone state)\<rparr>)
                             else Inr (m\<lparr>Answer :=
                                    [dns_AAAA \<lparr>Name = Request_QName state, Rrtype = dns_TypeAAAA,
                                                Class = dns_ClassINET, Ttl = 5\<rparr> addr]\<rparr>))
                          else Inr (m\<lparr>Ns := soa now (Zone state)\<rparr>)))))"

text \<open>
  The loop over \<^verbatim>\<open>t.origins\<close> at the head of \<^verbatim>\<open>ServeDNS\<close>: the cluster and the zone it
  leaves behind, both empty when no origin is a suffix of the name.
\<close>

fun match_origins :: "string list \<Rightarrow> string \<Rightarrow> string \<times> string" where
  "match_origins [] name = ([], [])"
| "match_origins (orig # rest) name =
     (if HasSuffix name orig then (TrimZone name orig, orig) else match_origins rest name)"

text \<open>
  The loop of the SRV case: one SRV record and one glue record are appended for each
  socket address, \<open>i\<close> being its index.
\<close>

fun srv_loop ::
  "string \<Rightarrow> string \<Rightarrow> string \<Rightarrow> nat \<Rightarrow> SocketAddress list \<Rightarrow> dns_RR list \<times> dns_RR list
     \<Rightarrow> dns_RR list \<times> dns_RR list" where
  "srv_loop qname cluster zone i [] (answer, extra) = (answer, extra)"
| "srv_loop qname cluster zone i (sa # sas) (answer, extra) =
     (let target = ''endpoint-'' @ itoa i @ ''.'' @ cluster @ ''.'' @ zone;
          answer' = answer @
            [dns_SRV \<lparr>Name = qname, Rrtype = dns_TypeSRV, Class = dns_ClassINET, Ttl = 5\<rparr>
               100 100 (Port sa) target];
          extra' = extra @
            [if To4 (Address sa) = None
             then dns_AAAA \<lparr>Name = target, Rrtype = dns_TypeAAAA, Class = dns_ClassINET, Ttl = 5\<rparr>
                    (Address sa)
             else dns_A \<lparr>Name = target, Rrtype = dns_TypeA, Class = dns_ClassINET, Ttl = 5\<rparr>
                    (Address sa)]
      in srv_loop qname cluster zone (Suc i) sas (answer', extra'))"

text \<open>
  The rest of \<^verbatim>\<open>ServeDNS\<close> from the test \<^verbatim>\<open>sockaddr == nil\<close> on: every path that does not
  return inside the label switch continues here with the message \<open>m\<close>, the cluster and the
  selected socket address.
\<close>

definition answer_query ::
  "Traffic \<Rightarrow> 32 word \<Rightarrow> Request \<Rightarrow> dns_Msg \<Rightarrow> string \<Rightarrow> SocketAddress option \<Rightarrow> error + dns_Msg" where
  "answer_query t now state m cluster sockaddr =
     (case sockaddr of
        None \<Rightarrow> Inr (m\<lparr>Ns := soa now (Zone state)\<rparr>)
      | Some sa \<Rightarrow>
         (if Request_QType state = dns_TypeA then
            (if To4 (Address sa) = None then Inr (m\<lparr>Ns := soa now (Zone state)\<rparr>)
             else Inr (m\<lparr>Answer :=
                    [dns_A \<lparr>Name = Request_QName state, Rrtype = dns_TypeA,
                             Class = dns_ClassINET, Ttl = 5\<rparr> (Address sa)]\<rparr>))
          else if Request_QType state = dns_TypeAAAA then
            (if To4 (Address sa) \<noteq> None then Inr (m\<lparr>Ns := soa now (Zone state)\<rparr>)
             else Inr (m\<lparr>Answer :=
                    [dns_AAAA \<lparr>Name = Request_QName state, Rrtype = dns_TypeAAAA,
                                Class = dns_ClassINET, Ttl = 5\<rparr> (Address sa)]\<rparr>))
          else if Request_QType state = dns_TypeSRV then
            (let sockaddrs = fst (All' (c t) cluster (health t));
                 (answer, extra) =
                    srv_loop (Request_QName state) cluster (Zone state) 0 sockaddrs ([], [])
             in Inr (m\<lparr>Answer := answer, Extra := extra\<rparr>))
          else Inr (m\<lparr>Ns := soa now (Zone state)\<rparr>)))"

text \<open>
  \<^verbatim>\<open>ServeDNS\<close>. A \<^verbatim>\<open>case\<close> of a Go \<^verbatim>\<open>switch\<close> does not fall through: the two-label case
  that matches neither test leaves the switch and continues with the socket address of
  the first selection.
\<close>

definition ServeDNS :: "Traffic \<Rightarrow> 32 word \<Rightarrow> dns_Msg \<Rightarrow> error + dns_Msg" where
  "ServeDNS t now r =
     (let state0 = \<lparr>Req = r, Zone = []\<rparr>;
          (cluster, zone) = match_origins (origins t) (Request_Name state0);
          state = state0\<lparr>Zone := zone\<rparr>;
          m = (SetReply r)\<lparr>Authoritative := True\<rparr>;
          (sockaddr, ok) = Select (c t) cluster (health t)
      in if \<not> ok then
           (let labels = SplitDomainName cluster
            in if length labels = 2 then
                 (if ToLower (labels ! 0) = ''_tcp''
                  then Inr (m\<lparr>Ns := soa now (Zone state), Rcode := dns_RcodeSuccess\<rparr>)
                  else if HasPrefix (ToLower (labels ! 0)) ''endpoint-'' then
                    (let cluster' = labels ! 1;
                         (sockaddr', ok') = Select (c t) cluster' (health t)
                     in if \<not> ok'
                        then Inr (m\<lparr>Ns := soa now (Zone state), Rcode := dns_RcodeNameError\<rparr>)
                        else serveEndpoint t now state (labels ! 0) cluster')
                  else answer_query t now state m cluster sockaddr)
               else if length labels = 3 then
                 (if ToLower (labels ! 0) \<noteq> ''_grpclb'' \<or> ToLower (labels ! 1) \<noteq> ''_tcp''
                  then Inr (m\<lparr>Ns := soa now (Zone state), Rcode := dns_RcodeNameError\<rparr>)
                  else
                    (let cluster' = mgmt t;
                         sockaddr' = fst (Select (c t) cluster' (health t))
                     in answer_query t now state m cluster' sockaddr'))
               else Inr (m\<lparr>Ns := soa now (Zone state), Rcode := dns_RcodeNameError\<rparr>))
         else answer_query t now state m cluster sockaddr)"

subsection \<open>The zone match the spec describes\<close>

text \<open>
  The spec (4.1) has a zone match a query name when the labels of the zone are the last
  labels of the name, compared without regard to case. This definition follows the
  spec's words; the handler's own test is \<open>HasSuffix\<close> in \<open>match_origins\<close>.
\<close>

definition spec_zone_matches :: "string \<Rightarrow> string \<Rightarrow> bool" where
  "spec_zone_matches zone name =
     (let zl = map ToLower (SplitDomainName zone);
          nl = map ToLower (SplitDomainName name)
      in length zl \<le> length nl \<and> drop (length nl - length zl) nl = zl)"

subsection \<open>The scenarios of the spec\<close>

text \<open>
  The concrete scenarios of the spec (8): the zone \<^verbatim>\<open>example.org.\<close>, the management
  cluster \<^verbatim>\<open>mgmt\<close> with the endpoint 10.0.0.9:7000 and the cluster \<^verbatim>\<open>web\<close> with the
  endpoint 10.0.0.1:8080.
\<close>

definition example_query :: "string \<Rightarrow> 16 word \<Rightarrow> dns_Msg" where
  "example_query qname qtype =
     \<lparr>Id = 1, Response = False, Opcode = 0, Authoritative = False, RecursionDesired = True,
      CheckingDisabled = False, Rcode = 0,
      Question = [\<lparr>Q_Name = qname, Qtype = qtype, Qclass = dns_ClassINET\<rparr>],
      Answer = [], Ns = [], Extra = []\<rparr>"

definition web_endpoint :: SocketAddress where
  "web_endpoint = \<lparr>Address = [10, 0, 0, 1], Port = 8080\<rparr>"

definition mgmt_endpoint :: SocketAddress where
  "mgmt_endpoint = \<lparr>Address = [10, 0, 0, 9], Port = 7000\<rparr>"

definition example_client :: Client where
  "example_client =
     \<lparr>Select = (\<lambda>cluster healthy.
        if cluster = ''web'' then (Some web_endpoint, True)
        else if cluster = ''mgmt'' then (Some mgmt_endpoint, True)
        else (None, False)),
      All' = (\<lambda>cluster healthy.
        if cluster = ''web'' then ([web_endpoint], True)
        else if cluster = ''mgmt'' then ([mgmt_endpoint], True)
        else ([], False))\<rparr>"

text \<open>
  A provider whose cluster \<^verbatim>\<open>web\<close> hands out an endpoint on \<open>Select\<close> while its full list
  is empty (the spec, 9: the calls of one query are not a snapshot of the provider).
\<close>

definition drained_client :: Client where
  "drained_client =
     \<lparr>Select = (\<lambda>cluster healthy.
        if cluster = ''web'' then (Some web_endpoint, True) else (None, False)),
      All' = (\<lambda>cluster healthy. ([], cluster = ''web''))\<rparr>"

text \<open>A provider with a cluster that is itself named \<^verbatim>\<open>_tcp.web\<close>.\<close>

definition tcp_named_client :: Client where
  "tcp_named_client =
     \<lparr>Select = (\<lambda>cluster healthy.
        if cluster = ''_tcp.web'' then (Some web_endpoint, True) else (None, False)),
      All' = (\<lambda>cluster healthy.
        if cluster = ''_tcp.web'' then ([web_endpoint], True) else ([], False))\<rparr>"

text \<open>A provider whose cluster \<^verbatim>\<open>web\<close> has an IPv4 and an IPv6 endpoint.\<close>

definition web6_endpoint :: SocketAddress where
  "web6_endpoint =
     \<lparr>Address = [0x20, 0x01, 0x0d, 0xb8, 0, 0, 0, 0, 0, 0, 0, 0, 0, 0, 0, 1], Port = 8443\<rparr>"

definition dual_stack_client :: Client where
  "dual_stack_client =
     \<lparr>Select = (\<lambda>cluster healthy.
        if cluster = ''web'' then (Some web6_endpoint, True) else (None, False)),
      All' = (\<lambda>cluster healthy.
        if cluster = ''web'' then ([web_endpoint, web6_endpoint], True) else ([], False))\<rparr>"

definition example_traffic :: "Client \<Rightarrow> Traffic" where
  "example_traffic client =
     \<lparr>c = client, node = ''coredns'', mgmt = ''mgmt'', hosts = [], id' = [], health = False,
      origins = [''example.org.''], Next = (\<lambda>r. Inr (SetReply r))\<rparr>"

section \<open>Properties\<close>

subsection \<open>Library facts\<close>

lemmas library_defs =
  ToLower_def ToLower_byte_def char_of_def HasSuffix_def HasPrefix_def Atoi_def is_digit_def
  Split_def CountLabel_def IsFqdn_def Fqdn_def slice_def SplitDomainName_def PrevLabel_def
  TrimZone_def Join_def To4_def bit_Suc_0_iff

lemmas scenario_defs =
  example_query_def example_traffic_def example_client_def drained_client_def
  tcp_named_client_def dual_stack_client_def web_endpoint_def web6_endpoint_def mgmt_endpoint_def
  Request_Name_def Request_QName_def
  Request_QType_def dns_TypeA_def dns_TypeAAAA_def dns_TypeSRV_def

lemma HasSuffix_iff: "HasSuffix s x \<longleftrightarrow> (\<exists>p. s = p @ x)"
proof
  assume "HasSuffix s x"
  then have "s = take (length s - length x) s @ x"
    by (metis HasSuffix_def append_take_drop_id)
  then show "\<exists>p. s = p @ x" ..
next
  assume "\<exists>p. s = p @ x"
  then show "HasSuffix s x" by (auto simp: HasSuffix_def)
qed

lemma Index_endpoint: "Index (''endpoint-'' @ ds) ''-'' = 8"
  by (simp add: HasPrefix_def)

lemma ToLower_endpoint: "ToLower (''endpoint-'' @ ds) = ''endpoint-'' @ ToLower ds"
  by (simp add: ToLower_def ToLower_byte_def)

lemma HasPrefix_endpoint: "HasPrefix (ToLower (''endpoint-'' @ ds)) ''endpoint-''"
  unfolding ToLower_endpoint by (simp add: HasPrefix_def)

lemma endpoint_prefix_not_tcp: "HasPrefix s ''endpoint-'' \<Longrightarrow> s \<noteq> ''_tcp''"
  by (auto simp: HasPrefix_def)


text \<open>The library models on the examples of their documentation.\<close>

lemma SplitDomainName_examples:
  "SplitDomainName ''www.miek.nl.'' = [''www'', ''miek'', ''nl'']"
  "SplitDomainName ''.www.miek.nl.'' = [[], ''www'', ''miek'', ''nl'']"
  "SplitDomainName ''.'' = []"
  "SplitDomainName [] = []"
  "SplitDomainName [CHR ''a'', CHR 0x5C, CHR ''.'', CHR ''b'', CHR ''.'', CHR ''c''] =
     [[CHR ''a'', CHR 0x5C, CHR ''.'', CHR ''b''], ''c'']"
  by (simp_all add: library_defs)

lemma Split_examples:
  "Split ''www.miek.nl.'' = [0, 4, 9]" "Split ''www.miek.nl'' = [0, 4, 9]" "Split ''.'' = []"
  "CountLabel ''www.miek.nl.'' = 3" "CountLabel ''.'' = 0"
  by (simp_all add: library_defs)

lemma TrimZone_examples:
  "TrimZone ''web.example.org.'' ''example.org.'' = ''web''"
  "TrimZone ''endpoint-0.web.example.org.'' ''example.org.'' = ''endpoint-0.web''"
  "TrimZone ''example.org.'' ''example.org.'' = []"
  by (simp_all add: library_defs)

lemma Atoi_examples:
  "Atoi ''0'' = Some 0" "Atoi ''42'' = Some 42" "Atoi ''+5'' = Some 5" "Atoi ''-1'' = Some (- 1)"
  "Atoi [] = None" "Atoi ''-'' = None" "Atoi ''1-2'' = None" "Atoi ''abc'' = None"
  "Atoi ''9223372036854775807'' = Some 9223372036854775807"
  "Atoi ''9223372036854775808'' = None"
  by (simp_all add: library_defs)

lemma To4_examples:
  "To4 [10, 0, 0, 1] = Some [10, 0, 0, 1]"
  "To4 [0, 0, 0, 0, 0, 0, 0, 0, 0, 0, 0xff, 0xff, 10, 0, 0, 1] = Some [10, 0, 0, 1]"
  "To4 [0x20, 0x01, 0x0d, 0xb8, 0, 0, 0, 0, 0, 0, 0, 0, 0, 0, 0, 1] = None"
  by (simp_all add: To4_def)

subsection \<open>The pieces of the handler\<close>


lemma SetReply_fields:
  "Rcode (SetReply r) = dns_RcodeSuccess" "Answer (SetReply r) = []" "Ns (SetReply r) = []"
  "Extra (SetReply r) = []"
  by (simp_all add: SetReply_def)

lemma Request_Zone_irrelevant:
  "Request_QType \<lparr>Req = r, Zone = z\<rparr> = Request_QType \<lparr>Req = r, Zone = []\<rparr>"
  "Request_QName \<lparr>Req = r, Zone = z\<rparr> = Request_QName \<lparr>Req = r, Zone = []\<rparr>"
  by (simp_all add: Request_QType_def Request_QName_def)

lemma match_origins_none:
  "\<forall>z \<in> set zones. \<not> HasSuffix name z \<Longrightarrow> match_origins zones name = ([], [])"
  by (induction zones) auto

lemma match_origins_first:
  "match_origins zones name = (cluster, zone) \<Longrightarrow>
     (\<exists>i < length zones. zone = zones ! i \<and> HasSuffix name (zones ! i) \<and>
        (\<forall>j < i. \<not> HasSuffix name (zones ! j)) \<and> cluster = TrimZone name zone)
     \<or> ((\<forall>z \<in> set zones. \<not> HasSuffix name z) \<and> zone = [] \<and> cluster = [])"
proof (induction zones)
  case Nil
  then show ?case by simp
next
  case (Cons z zs)
  show ?case
  proof (cases "HasSuffix name z")
    case True
    with Cons.prems have "zone = z" "cluster = TrimZone name z" by auto
    with True show ?thesis by (intro disjI1 exI [of _ 0]) simp
  next
    case False
    with Cons.prems have "match_origins zs name = (cluster, zone)" by simp
    from Cons.IH [OF this] show ?thesis
    proof
      assume "\<exists>i<length zs. zone = zs ! i \<and> HasSuffix name (zs ! i) \<and>
        (\<forall>j<i. \<not> HasSuffix name (zs ! j)) \<and> cluster = TrimZone name zone"
      then obtain i where i: "i < length zs" "zone = zs ! i" "HasSuffix name (zs ! i)"
        "\<forall>j<i. \<not> HasSuffix name (zs ! j)" "cluster = TrimZone name zone" by blast
      have "\<forall>j < Suc i. \<not> HasSuffix name ((z # zs) ! j)"
        using False i(4) by (auto simp: less_Suc_eq_0_disj)
      with i show ?thesis by (intro disjI1 exI [of _ "Suc i"]) simp
    next
      assume "(\<forall>z\<in>set zs. \<not> HasSuffix name z) \<and> zone = [] \<and> cluster = []"
      with False show ?thesis by simp
    qed
  qed
qed

text \<open>The SRV loop appends, for the socket address at index \<open>j\<close>, the records of \<open>j\<close>.\<close>

lemma srv_loop_enumerate:
  "srv_loop qname cluster zone i sas (answer, extra) =
     (answer @ map (\<lambda>(j, sa).
          dns_SRV \<lparr>Name = qname, Rrtype = dns_TypeSRV, Class = dns_ClassINET, Ttl = 5\<rparr>
            100 100 (Port sa) (''endpoint-'' @ itoa j @ ''.'' @ cluster @ ''.'' @ zone))
        (enumerate i sas),
      extra @ map (\<lambda>(j, sa).
          if To4 (Address sa) = None
          then dns_AAAA \<lparr>Name = ''endpoint-'' @ itoa j @ ''.'' @ cluster @ ''.'' @ zone,
                 Rrtype = dns_TypeAAAA, Class = dns_ClassINET, Ttl = 5\<rparr> (Address sa)
          else dns_A \<lparr>Name = ''endpoint-'' @ itoa j @ ''.'' @ cluster @ ''.'' @ zone,
                 Rrtype = dns_TypeA, Class = dns_ClassINET, Ttl = 5\<rparr> (Address sa))
        (enumerate i sas))"
  by (induction sas arbitrary: i answer extra) (simp_all add: Let_def)

text \<open>\<^verbatim>\<open>ServeDNS\<close> once the zone match and the first selection are known.\<close>

lemma ServeDNS_unfold:
  assumes "match_origins (origins t) (Request_Name \<lparr>Req = r, Zone = []\<rparr>) = (cluster, zone)"
      and "Select (c t) cluster (health t) = (sockaddr, ok)"
  shows "ServeDNS t now r =
     (if \<not> ok then
        (if length (SplitDomainName cluster) = 2 then
           (if ToLower (SplitDomainName cluster ! 0) = ''_tcp''
            then Inr ((SetReply r)\<lparr>Authoritative := True, Ns := soa now zone,
                        Rcode := dns_RcodeSuccess\<rparr>)
            else if HasPrefix (ToLower (SplitDomainName cluster ! 0)) ''endpoint-'' then
              (if \<not> snd (Select (c t) (SplitDomainName cluster ! 1) (health t))
               then Inr ((SetReply r)\<lparr>Authoritative := True, Ns := soa now zone,
                           Rcode := dns_RcodeNameError\<rparr>)
               else serveEndpoint t now \<lparr>Req = r, Zone = zone\<rparr>
                      (SplitDomainName cluster ! 0) (SplitDomainName cluster ! 1))
            else answer_query t now \<lparr>Req = r, Zone = zone\<rparr>
                   ((SetReply r)\<lparr>Authoritative := True\<rparr>) cluster sockaddr)
         else if length (SplitDomainName cluster) = 3 then
           (if ToLower (SplitDomainName cluster ! 0) \<noteq> ''_grpclb'' \<or>
               ToLower (SplitDomainName cluster ! 1) \<noteq> ''_tcp''
            then Inr ((SetReply r)\<lparr>Authoritative := True, Ns := soa now zone,
                        Rcode := dns_RcodeNameError\<rparr>)
            else answer_query t now \<lparr>Req = r, Zone = zone\<rparr>
                   ((SetReply r)\<lparr>Authoritative := True\<rparr>) (mgmt t)
                   (fst (Select (c t) (mgmt t) (health t))))
         else Inr ((SetReply r)\<lparr>Authoritative := True, Ns := soa now zone,
                     Rcode := dns_RcodeNameError\<rparr>))
      else answer_query t now \<lparr>Req = r, Zone = zone\<rparr>
             ((SetReply r)\<lparr>Authoritative := True\<rparr>) cluster sockaddr)"
  using assms by (simp add: ServeDNS_def Let_def split: prod.splits)

lemma ServeDNS_endpoint_route:
  assumes "match_origins (origins t) (Request_Name \<lparr>Req = r, Zone = []\<rparr>) = (subject, zone)"
      and "SplitDomainName subject = [ep, cluster]"
      and "HasPrefix (ToLower ep) ''endpoint-''"
      and "Select (c t) subject (health t) = (sockaddr, False)"
      and "snd (Select (c t) cluster (health t))"
  shows "ServeDNS t now r = serveEndpoint t now \<lparr>Req = r, Zone = zone\<rparr> ep cluster"
proof -
  have "ToLower ep \<noteq> ''_tcp''" using assms(3) by (rule endpoint_prefix_not_tcp)
  then show ?thesis
    using assms(2,3,5) by (simp add: ServeDNS_unfold [OF assms(1,4)])
qed

text \<open>
  \<^verbatim>\<open>serveEndpoint\<close> on a label \<^verbatim>\<open>endpoint-\<close>\<open>ds\<close> whose number \<open>N\<close> parses: the three
  ranges of \<open>N\<close> against the length of the list.
\<close>

lemma serveEndpoint_parsed:
  assumes "Atoi ds = Some N"
      and "fst (All' (c t) cluster (health t)) = sas"
  shows "serveEndpoint t now state (''endpoint-'' @ ds) cluster =
     (let m = (SetReply (Req state))\<lparr>Authoritative := True\<rparr>
      in if int (length sas) < N
         then Inr (m\<lparr>Ns := soa now (Zone state), Rcode := dns_RcodeNameError\<rparr>)
         else if N < 0 \<or> int (length sas) \<le> N then Inl IndexOutOfRange
         else
          (let addr = Address (sas ! nat N)
           in if Request_QType state = dns_TypeA then
                (if To4 addr = None then Inr (m\<lparr>Ns := soa now (Zone state)\<rparr>)
                 else Inr (m\<lparr>Answer := [dns_A \<lparr>Name = Request_QName state, Rrtype = dns_TypeA,
                                                  Class = dns_ClassINET, Ttl = 5\<rparr> addr]\<rparr>))
              else if Request_QType state = dns_TypeAAAA then
                (if To4 addr \<noteq> None then Inr (m\<lparr>Ns := soa now (Zone state)\<rparr>)
                 else Inr (m\<lparr>Answer := [dns_AAAA \<lparr>Name = Request_QName state,
                                                     Rrtype = dns_TypeAAAA,
                                                     Class = dns_ClassINET, Ttl = 5\<rparr> addr]\<rparr>))
              else Inr (m\<lparr>Ns := soa now (Zone state)\<rparr>)))"
proof -
  have idx: "Index (''endpoint-'' @ ds) ''-'' = 8" by (rule Index_endpoint)
  have dr: "drop (nat (8 + 1)) (''endpoint-'' @ ds) = ds" by simp
  show ?thesis
    unfolding serveEndpoint_def idx Let_def dr by (simp add: assms)
qed




subsection \<open>Endpoint sub-resolution: the index against the list\<close>

text \<open>
  C1. The claim: an \<^verbatim>\<open>endpoint-N.cluster\<close> query whose parsed index \<open>N\<close> is greater than
  or equal to the length of the list of \<^verbatim>\<open>SelectAll(cluster)\<close> is answered NXDOMAIN with
  the synthetic SOA and an empty answer section. The handler does so when \<open>N\<close> is greater
  than the length. When \<open>N\<close> equals the length, the guard \<^verbatim>\<open>len(sockaddrs) < nr\<close> lets
  the read \<^verbatim>\<open>sockaddrs[nr]\<close> run, and the handler panics instead of answering.
\<close>

theorem endpoint_index_at_length_panics:
  assumes "match_origins (origins t) (Request_Name \<lparr>Req = r, Zone = []\<rparr>) = (subject, zone)"
      and "SplitDomainName subject = [''endpoint-'' @ ds, cluster]"
      and "Select (c t) subject (health t) = (sockaddr, False)"
      and "Select (c t) cluster (health t) = (sockaddr', True)"
      and "Atoi ds = Some N"
      and "fst (All' (c t) cluster (health t)) = sas"
  shows "(int (length sas) < N \<longrightarrow>
            (\<exists>m. ServeDNS t now r = Inr m \<and> Rcode m = dns_RcodeNameError \<and> Answer m = [] \<and>
                 Ns m = soa now zone)) \<and>
         (N = int (length sas) \<longrightarrow> ServeDNS t now r = Inl IndexOutOfRange)"
proof -
  have route: "ServeDNS t now r =
      serveEndpoint t now \<lparr>Req = r, Zone = zone\<rparr> (''endpoint-'' @ ds) cluster"
    using assms(1,2) HasPrefix_endpoint assms(3) by (rule ServeDNS_endpoint_route) (simp add: assms(4))
  show ?thesis
    unfolding route serveEndpoint_parsed [OF assms(5,6)] Let_def
    by (simp add: SetReply_fields)
qed

theorem endpoint_index_at_length_panics_witness:
  "SplitDomainName ''endpoint-1.web'' = [''endpoint-1'', ''web''] \<and> Atoi ''1'' = Some 1 \<and>
   fst (All' example_client ''web'' False) = [web_endpoint] \<and>
   ServeDNS (example_traffic example_client) 0
     (example_query ''endpoint-1.web.example.org.'' dns_TypeA) = Inl IndexOutOfRange"
proof -
  let ?t = "example_traffic example_client"
  let ?r = "example_query ''endpoint-1.web.example.org.'' dns_TypeA"
  have h1: "match_origins (origins ?t) (Request_Name \<lparr>Req = ?r, Zone = []\<rparr>) =
      (''endpoint-1.web'', ''example.org.'')"
    by (simp add: scenario_defs library_defs)
  have h2: "SplitDomainName ''endpoint-1.web'' = [''endpoint-'' @ ''1'', ''web'']"
    by (simp add: library_defs)
  have h3: "Select (c ?t) ''endpoint-1.web'' (health ?t) = (None, False)"
    by (simp add: scenario_defs)
  have h4: "Select (c ?t) ''web'' (health ?t) = (Some web_endpoint, True)"
    by (simp add: scenario_defs)
  have h5: "Atoi ''1'' = Some 1"
    by (simp add: library_defs)
  have h6: "fst (All' (c ?t) ''web'' (health ?t)) = [web_endpoint]"
    by (simp add: scenario_defs)
  from endpoint_index_at_length_panics [OF h1 h2 h3 h4 h5 h6, of 0]
  have "ServeDNS ?t 0 ?r = Inl IndexOutOfRange" by simp
  with h2 h5 h6 show ?thesis by (simp add: example_traffic_def)
qed

text \<open>
  C2. The claim: every query, in every state of the provider, is handled without a crash
  and ends in exactly one message; no path reads a list out of bounds, in particular not
  an \<^verbatim>\<open>endpoint-N\<close> name whose \<open>N\<close> is negative. The handler has no loop but the ones over
  the origins and the socket addresses, so it cannot hang; but a negative \<open>N\<close> passes the
  guard \<^verbatim>\<open>len(sockaddrs) < nr\<close> as well, and the read \<^verbatim>\<open>sockaddrs[nr]\<close> panics.
\<close>

theorem negative_endpoint_index_panics:
  assumes "match_origins (origins t) (Request_Name \<lparr>Req = r, Zone = []\<rparr>) = (subject, zone)"
      and "SplitDomainName subject = [''endpoint-'' @ ds, cluster]"
      and "Select (c t) subject (health t) = (sockaddr, False)"
      and "Select (c t) cluster (health t) = (sockaddr', True)"
      and "Atoi ds = Some N"
      and "N < 0"
  shows "ServeDNS t now r = Inl IndexOutOfRange"
proof -
  have route: "ServeDNS t now r =
      serveEndpoint t now \<lparr>Req = r, Zone = zone\<rparr> (''endpoint-'' @ ds) cluster"
    using assms(1,2) HasPrefix_endpoint assms(3) by (rule ServeDNS_endpoint_route) (simp add: assms(4))
  have "\<not> int (length (fst (All' (c t) cluster (health t)))) < N"
    using assms(6) by simp
  then show ?thesis
    unfolding route serveEndpoint_parsed [OF assms(5) refl] Let_def
    using assms(6) by simp
qed

theorem negative_endpoint_index_panics_witness:
  "SplitDomainName ''endpoint--1.web'' = [''endpoint--1'', ''web''] \<and> Atoi ''-1'' = Some (- 1) \<and>
   ServeDNS (example_traffic example_client) 0
     (example_query ''endpoint--1.web.example.org.'' dns_TypeA) = Inl IndexOutOfRange"
proof -
  let ?t = "example_traffic example_client"
  let ?r = "example_query ''endpoint--1.web.example.org.'' dns_TypeA"
  have h1: "match_origins (origins ?t) (Request_Name \<lparr>Req = ?r, Zone = []\<rparr>) =
      (''endpoint--1.web'', ''example.org.'')"
    by (simp add: scenario_defs library_defs)
  have h2: "SplitDomainName ''endpoint--1.web'' = [''endpoint-'' @ ''-1'', ''web'']"
    by (simp add: library_defs)
  have h3: "Select (c ?t) ''endpoint--1.web'' (health ?t) = (None, False)"
    by (simp add: scenario_defs)
  have h4: "Select (c ?t) ''web'' (health ?t) = (Some web_endpoint, True)"
    by (simp add: scenario_defs)
  have h5: "Atoi ''-1'' = Some (- 1)"
    by (simp add: library_defs)
  have h6: "(- 1 :: int) < 0" by simp
  from negative_endpoint_index_panics [OF h1 h2 h3 h4 h5 h6, of 0]
  have "ServeDNS ?t 0 ?r = Inl IndexOutOfRange" .
  with h2 h5 show ?thesis by simp
qed

subsection \<open>Zone matching\<close>

text \<open>
  C3. The claim: the matched zone is the first configured zone whose suffix matches the
  query name case-insensitively at a DNS label boundary, not as a raw string suffix; so
  \<^verbatim>\<open>fooexample.org.\<close> does not match the zone \<^verbatim>\<open>example.org.\<close>. The handler tests
  \<^verbatim>\<open>strings.HasSuffix\<close> on the lower-cased query name: the matched zone is the first
  configured zone that is a raw string suffix of that name, and none when there is no
  such zone. A query in upper case matches a zone configured in lower case.
\<close>

theorem zone_match_first_raw_suffix:
  assumes "match_origins zones (Request_Name st) = (cluster, zone)"
  shows "(\<exists>i < length zones. zone = zones ! i \<and> (\<exists>p. Request_Name st = p @ zones ! i) \<and>
            (\<forall>j < i. \<not> (\<exists>p. Request_Name st = p @ zones ! j))) \<or>
         ((\<forall>z \<in> set zones. \<not> (\<exists>p. Request_Name st = p @ z)) \<and> zone = [])"
  using match_origins_first [OF assms] unfolding HasSuffix_iff by blast

theorem zone_match_first_raw_suffix_witness:
  "match_origins [''example.com.'', ''example.org.'']
     (Request_Name \<lparr>Req = example_query ''WEB.EXAMPLE.ORG.'' dns_TypeA, Zone = []\<rparr>) =
     (''web'', ''example.org.'') \<and>
   (\<exists>p. ''web.example.org.'' = p @ ''example.org.'') \<and>
   \<not> (\<exists>p. ''web.example.org.'' = p @ ''example.com.'')"
proof -
  let ?st = "\<lparr>Req = example_query ''WEB.EXAMPLE.ORG.'' dns_TypeA, Zone = []\<rparr>"
  let ?zones = "[''example.com.'', ''example.org.'']"
  have n: "Request_Name ?st = ''web.example.org.''"
    by (simp add: scenario_defs library_defs)
  have h: "match_origins ?zones (Request_Name ?st) = (''web'', ''example.org.'')"
    unfolding n by (simp add: library_defs)
  have neq: "''example.org.'' \<noteq> ''example.com.''" "''example.org.'' \<noteq> []" by simp_all
  from zone_match_first_raw_suffix [OF h]
  obtain i where i: "i < length ?zones" "''example.org.'' = ?zones ! i"
    "\<exists>p. Request_Name ?st = p @ ?zones ! i" "\<forall>j < i. \<not> (\<exists>p. Request_Name ?st = p @ ?zones ! j)"
    using neq by blast
  from i(1,2) neq have "i = 1" by (cases i) auto
  with i(3,4) have "\<exists>p. ''web.example.org.'' = p @ ''example.org.''"
    "\<not> (\<exists>p. ''web.example.org.'' = p @ ''example.com.'')"
    unfolding n by auto
  with h show ?thesis by simp
qed

theorem zone_match_ignores_label_boundary:
  "snd (match_origins [''example.org.'']
          (Request_Name \<lparr>Req = example_query ''fooexample.org.'' dns_TypeA, Zone = []\<rparr>)) =
     ''example.org.'' \<and>
   \<not> spec_zone_matches ''example.org.'' ''fooexample.org.'' \<and>
   (\<exists>m. ServeDNS (example_traffic example_client) 0
           (example_query ''fooexample.org.'' dns_TypeA) = Inr m \<and>
        Ns m = soa 0 ''example.org.'')"
proof -
  have "ServeDNS (example_traffic example_client) 0
           (example_query ''fooexample.org.'' dns_TypeA) =
        Inr ((SetReply (example_query ''fooexample.org.'' dns_TypeA))
               \<lparr>Authoritative := True, Ns := soa 0 ''example.org.'',
                Rcode := dns_RcodeNameError\<rparr>)"
    by (simp add: ServeDNS_def scenario_defs library_defs)
  then show ?thesis
    by (simp add: scenario_defs library_defs spec_zone_matches_def)
qed

subsection \<open>Two labels that are neither form\<close>

text \<open>
  C4. The claim: a two-label subject whose first label is neither \<^verbatim>\<open>_tcp\<close> nor of the
  form \<^verbatim>\<open>endpoint-<integer>\<close> is answered NXDOMAIN when the direct lookup of the subject
  fails, as any invalid name is. In the handler the case for two labels returns only in
  its two tests; a first label without the prefix \<^verbatim>\<open>endpoint-\<close> leaves the switch, and the
  test \<^verbatim>\<open>sockaddr == nil\<close> answers with the SOA and the response code left at NOERROR. The
  one-label, the three-label and the default case all answer NXDOMAIN.
\<close>

theorem two_label_other_form_noerror:
  assumes "match_origins (origins t) (Request_Name \<lparr>Req = r, Zone = []\<rparr>) = (subject, zone)"
      and "SplitDomainName subject = [l0, l1]"
      and "ToLower l0 \<noteq> ''_tcp''"
      and "\<not> HasPrefix (ToLower l0) ''endpoint-''"
      and "Select (c t) subject (health t) = (None, False)"
  shows "\<exists>m. ServeDNS t now r = Inr m \<and> Rcode m = dns_RcodeSuccess \<and>
           Rcode m \<noteq> dns_RcodeNameError \<and> Answer m = [] \<and> Ns m = soa now zone"
proof -
  have "ServeDNS t now r =
      answer_query t now \<lparr>Req = r, Zone = zone\<rparr> ((SetReply r)\<lparr>Authoritative := True\<rparr>) subject None"
    using assms(2,3,4) by (simp add: ServeDNS_unfold [OF assms(1,5)])
  then show ?thesis
    by (simp add: answer_query_def SetReply_fields dns_RcodeSuccess_def dns_RcodeNameError_def)
qed

theorem two_label_other_form_noerror_witness:
  "SplitDomainName ''foo.web'' = [''foo'', ''web''] \<and>
   (\<exists>m. ServeDNS (example_traffic example_client) 0
           (example_query ''foo.web.example.org.'' dns_TypeA) = Inr m \<and>
        Rcode m = dns_RcodeSuccess \<and> Answer m = [] \<and> Ns m = soa 0 ''example.org.'')"
proof -
  let ?t = "example_traffic example_client"
  let ?r = "example_query ''foo.web.example.org.'' dns_TypeA"
  have h1: "match_origins (origins ?t) (Request_Name \<lparr>Req = ?r, Zone = []\<rparr>) =
      (''foo.web'', ''example.org.'')"
    by (simp add: scenario_defs library_defs)
  have h2: "SplitDomainName ''foo.web'' = [''foo'', ''web'']"
    by (simp add: library_defs)
  have h3: "ToLower ''foo'' \<noteq> ''_tcp''"
    by (simp add: library_defs)
  have h4: "\<not> HasPrefix (ToLower ''foo'') ''endpoint-''"
    by (simp add: library_defs)
  have h5: "Select (c ?t) ''foo.web'' (health ?t) = (None, False)"
    by (simp add: scenario_defs)
  from two_label_other_form_noerror [OF h1 h2 h3 h4 h5, of 0] h2
  show ?thesis by blast
qed

subsection \<open>The shape of every response\<close>




subsection \<open>The empty non-terminal\<close>

text \<open>
  C6. The claim: a query whose subject is \<^verbatim>\<open>_tcp.<anything>\<close> is answered NOERROR with an
  empty answer section and the synthetic SOA in every state of the provider. The handler
  first selects on the whole subject and classifies the labels only when that selection
  fails: a provider with a cluster named \<^verbatim>\<open>_tcp.web\<close> gets an address record. What holds:
  when the direct lookup of the whole subject fails, the answer is NOERROR with an empty
  answer section and the synthetic SOA, whether or not the second label is a cluster.
\<close>

theorem bare_tcp_nodata:
  assumes "match_origins (origins t) (Request_Name \<lparr>Req = r, Zone = []\<rparr>) = (subject, zone)"
      and "SplitDomainName subject = [l0, l1]"
      and "ToLower l0 = ''_tcp''"
      and "Select (c t) subject (health t) = (sockaddr, False)"
  shows "\<exists>m. ServeDNS t now r = Inr m \<and> Rcode m = dns_RcodeSuccess \<and> Answer m = [] \<and>
           Ns m = soa now zone"
  using assms(2,3) by (simp add: ServeDNS_unfold [OF assms(1,4)] SetReply_fields)

theorem bare_tcp_nodata_witness:
  "SplitDomainName ''_tcp.web'' = [''_tcp'', ''web''] \<and>
   Select example_client ''web'' False = (Some web_endpoint, True) \<and>
   (\<exists>m. ServeDNS (example_traffic example_client) 0
           (example_query ''_TCP.web.example.org.'' dns_TypeSRV) = Inr m \<and>
        Rcode m = dns_RcodeSuccess \<and> Answer m = [] \<and> Ns m = soa 0 ''example.org.'')"
proof -
  let ?t = "example_traffic example_client"
  let ?r = "example_query ''_TCP.web.example.org.'' dns_TypeSRV"
  have h1: "match_origins (origins ?t) (Request_Name \<lparr>Req = ?r, Zone = []\<rparr>) =
      (''_tcp.web'', ''example.org.'')"
    by (simp add: scenario_defs library_defs)
  have h2: "SplitDomainName ''_tcp.web'' = [''_tcp'', ''web'']"
    by (simp add: library_defs)
  have h3: "ToLower ''_tcp'' = ''_tcp''"
    by (simp add: library_defs)
  have h4: "Select (c ?t) ''_tcp.web'' (health ?t) = (None, False)"
    by (simp add: scenario_defs)
  have known: "Select example_client ''web'' False = (Some web_endpoint, True)"
    by (simp add: scenario_defs)
  from bare_tcp_nodata [OF h1 h2 h3 h4, of 0] h2 known
  show ?thesis by blast
qed

theorem tcp_named_cluster_answered:
  "SplitDomainName ''_tcp.web'' = [''_tcp'', ''web''] \<and>
   ServeDNS (example_traffic tcp_named_client) 0
     (example_query ''_tcp.web.example.org.'' dns_TypeA) =
   Inr ((SetReply (example_query ''_tcp.web.example.org.'' dns_TypeA))
          \<lparr>Authoritative := True,
           Answer := [dns_A \<lparr>Name = ''_tcp.web.example.org.'', Rrtype = dns_TypeA,
                              Class = dns_ClassINET, Ttl = 5\<rparr> [10, 0, 0, 1]]\<rparr>)"
  by (simp add: ServeDNS_def answer_query_def scenario_defs library_defs)

subsection \<open>SRV answers\<close>

text \<open>
  C7. An SRV query on a cluster for which \<^verbatim>\<open>Select\<close> finds an endpoint gets, for every
  element of \<^verbatim>\<open>SelectAll(cluster)\<close>, one SRV record (priority 100, weight 100, TTL 5, the
  port of the endpoint, the target \<^verbatim>\<open>endpoint-<index>.<cluster>.<zone>\<close> with the position
  in the list as index) and, in the additional section, one glue record named after that
  target, of type A for an IPv4 and AAAA for an IPv6 address: the number of SRV records,
  the number of glue records and the length of the list are equal.
\<close>

theorem srv_records_and_glue:
  assumes "match_origins (origins t) (Request_Name \<lparr>Req = r, Zone = []\<rparr>) = (cluster, zone)"
      and "Select (c t) cluster (health t) = (Some sa, True)"
      and "Request_QType \<lparr>Req = r, Zone = []\<rparr> = dns_TypeSRV"
      and "fst (All' (c t) cluster (health t)) = sas"
  shows "\<exists>m. ServeDNS t now r = Inr m \<and> Rcode m = dns_RcodeSuccess \<and>
           length (Answer m) = length sas \<and> length (Extra m) = length sas \<and>
           (\<forall>i < length sas.
              Answer m ! i =
                dns_SRV \<lparr>Name = Request_QName \<lparr>Req = r, Zone = []\<rparr>, Rrtype = dns_TypeSRV,
                          Class = dns_ClassINET, Ttl = 5\<rparr> 100 100 (Port (sas ! i))
                  (''endpoint-'' @ itoa i @ ''.'' @ cluster @ ''.'' @ zone) \<and>
              Extra m ! i =
                (if To4 (Address (sas ! i)) = None
                 then dns_AAAA \<lparr>Name = ''endpoint-'' @ itoa i @ ''.'' @ cluster @ ''.'' @ zone,
                        Rrtype = dns_TypeAAAA, Class = dns_ClassINET, Ttl = 5\<rparr> (Address (sas ! i))
                 else dns_A \<lparr>Name = ''endpoint-'' @ itoa i @ ''.'' @ cluster @ ''.'' @ zone,
                        Rrtype = dns_TypeA, Class = dns_ClassINET, Ttl = 5\<rparr> (Address (sas ! i))))"
proof -
  have qt: "Request_QType \<lparr>Req = r, Zone = zone\<rparr> = dns_TypeSRV"
    using assms(3) by (simp add: Request_Zone_irrelevant(1) [of r zone])
  have ne: "dns_TypeSRV \<noteq> dns_TypeA" "dns_TypeSRV \<noteq> dns_TypeAAAA"
    by (simp_all add: dns_TypeSRV_def dns_TypeA_def dns_TypeAAAA_def)
  have run: "ServeDNS t now r =
      Inr ((SetReply r)\<lparr>Authoritative := True,
             Answer := fst (srv_loop (Request_QName \<lparr>Req = r, Zone = []\<rparr>) cluster zone 0 sas
                              ([], [])),
             Extra := snd (srv_loop (Request_QName \<lparr>Req = r, Zone = []\<rparr>) cluster zone 0 sas
                              ([], []))\<rparr>)"
    using assms(4)
    by (simp add: ServeDNS_unfold [OF assms(1,2)] answer_query_def qt ne
          Request_Zone_irrelevant(2) [of r zone] Let_def split: prod.splits)
  show ?thesis
    unfolding run srv_loop_enumerate
    by (simp add: SetReply_fields nth_enumerate_eq)
qed

theorem srv_records_and_glue_witness:
  "\<exists>m. ServeDNS (example_traffic dual_stack_client) 0
          (example_query ''web.example.org.'' dns_TypeSRV) = Inr m \<and>
       Answer m =
         [dns_SRV \<lparr>Name = ''web.example.org.'', Rrtype = dns_TypeSRV, Class = dns_ClassINET,
                    Ttl = 5\<rparr> 100 100 8080 ''endpoint-0.web.example.org.'',
          dns_SRV \<lparr>Name = ''web.example.org.'', Rrtype = dns_TypeSRV, Class = dns_ClassINET,
                    Ttl = 5\<rparr> 100 100 8443 ''endpoint-1.web.example.org.''] \<and>
       Extra m =
         [dns_A \<lparr>Name = ''endpoint-0.web.example.org.'', Rrtype = dns_TypeA,
                  Class = dns_ClassINET, Ttl = 5\<rparr> (Address web_endpoint),
          dns_AAAA \<lparr>Name = ''endpoint-1.web.example.org.'', Rrtype = dns_TypeAAAA,
                     Class = dns_ClassINET, Ttl = 5\<rparr> (Address web6_endpoint)]"
proof -
  let ?t = "example_traffic dual_stack_client"
  let ?r = "example_query ''web.example.org.'' dns_TypeSRV"
  let ?sas = "[web_endpoint, web6_endpoint]"
  have h1: "match_origins (origins ?t) (Request_Name \<lparr>Req = ?r, Zone = []\<rparr>) =
      (''web'', ''example.org.'')"
    by (simp add: scenario_defs library_defs)
  have h2: "Select (c ?t) ''web'' (health ?t) = (Some web6_endpoint, True)"
    by (simp add: example_traffic_def dual_stack_client_def)
  have h3: "Request_QType \<lparr>Req = ?r, Zone = []\<rparr> = dns_TypeSRV"
    by (simp add: Request_QType_def example_query_def)
  have h4: "fst (All' (c ?t) ''web'' (health ?t)) = ?sas"
    by (simp add: example_traffic_def dual_stack_client_def)
  from srv_records_and_glue [OF h1 h2 h3 h4, of 0]
  obtain m where m: "ServeDNS ?t 0 ?r = Inr m" "length (Answer m) = length ?sas"
    "length (Extra m) = length ?sas"
    and each: "\<forall>i < length ?sas.
       Answer m ! i =
         dns_SRV \<lparr>Name = Request_QName \<lparr>Req = ?r, Zone = []\<rparr>, Rrtype = dns_TypeSRV,
                   Class = dns_ClassINET, Ttl = 5\<rparr> 100 100 (Port (?sas ! i))
           (''endpoint-'' @ itoa i @ ''.'' @ ''web'' @ ''.'' @ ''example.org.'') \<and>
       Extra m ! i =
         (if To4 (Address (?sas ! i)) = None
          then dns_AAAA \<lparr>Name = ''endpoint-'' @ itoa i @ ''.'' @ ''web'' @ ''.'' @ ''example.org.'',
                 Rrtype = dns_TypeAAAA, Class = dns_ClassINET, Ttl = 5\<rparr> (Address (?sas ! i))
          else dns_A \<lparr>Name = ''endpoint-'' @ itoa i @ ''.'' @ ''web'' @ ''.'' @ ''example.org.'',
                 Rrtype = dns_TypeA, Class = dns_ClassINET, Ttl = 5\<rparr> (Address (?sas ! i)))"
    by blast
  have i0: "itoa 0 = ''0''" and i1: "itoa 1 = ''1''"
    by (simp_all add: itoa.simps char_of_def bit_Suc_0_iff)
  have v4: "To4 (Address web_endpoint) \<noteq> None" and v6: "To4 (Address web6_endpoint) = None"
    by (simp_all add: To4_def web_endpoint_def web6_endpoint_def)
  have qn: "Request_QName \<lparr>Req = ?r, Zone = []\<rparr> = ''web.example.org.''"
    by (simp add: Request_QName_def example_query_def)
  have p: "Port web_endpoint = 8080" "Port web6_endpoint = 8443"
    by (simp_all add: web_endpoint_def web6_endpoint_def)
  from each have e0: "Answer m ! 0 =
      dns_SRV \<lparr>Name = ''web.example.org.'', Rrtype = dns_TypeSRV, Class = dns_ClassINET,
                Ttl = 5\<rparr> 100 100 8080 ''endpoint-0.web.example.org.''"
    "Extra m ! 0 = dns_A \<lparr>Name = ''endpoint-0.web.example.org.'', Rrtype = dns_TypeA,
                  Class = dns_ClassINET, Ttl = 5\<rparr> (Address web_endpoint)"
    using i0 v4 qn p by auto
  from each have e1: "Answer m ! 1 =
      dns_SRV \<lparr>Name = ''web.example.org.'', Rrtype = dns_TypeSRV, Class = dns_ClassINET,
                Ttl = 5\<rparr> 100 100 8443 ''endpoint-1.web.example.org.''"
    "Extra m ! 1 = dns_AAAA \<lparr>Name = ''endpoint-1.web.example.org.'', Rrtype = dns_TypeAAAA,
                  Class = dns_ClassINET, Ttl = 5\<rparr> (Address web6_endpoint)"
    using i1 v6 qn p by auto
  have two: "\<And>xs a b. length xs = 2 \<Longrightarrow> xs ! 0 = a \<Longrightarrow> xs ! 1 = (b :: dns_RR) \<Longrightarrow> xs = [a, b]"
  proof -
    fix xs :: "dns_RR list" and a b
    assume "length xs = 2" "xs ! 0 = a" "xs ! 1 = b"
    then show "xs = [a, b]"
      by (cases xs; cases "tl xs") auto
  qed
  from m(2) have la: "length (Answer m) = 2" by simp
  from m(3) have le: "length (Extra m) = 2" by simp
  from two [OF la e0(1) e1(1)] two [OF le e0(2) e1(2)] m(1)
  show ?thesis by blast
qed

subsection \<open>Endpoint sub-resolution: an index in range\<close>



subsection \<open>Load balancer discovery\<close>

text \<open>
  C9. A query whose subject has the three labels \<^verbatim>\<open>_grpclb._tcp.<cluster>\<close> (the first
  two compared without regard to case) and that the direct lookup does not satisfy is
  answered from the management cluster: the selection is made on the configured
  management cluster and the answer is built from it, whatever the third label is. When
  the provider has no endpoint for the management cluster the handler still goes on to
  build the answer, which is then the empty answer with the synthetic SOA.
\<close>

theorem grpclb_uses_management_cluster:
  assumes "match_origins (origins t) (Request_Name \<lparr>Req = r, Zone = []\<rparr>) = (subject, zone)"
      and "SplitDomainName subject = [l0, l1, l2]"
      and "ToLower l0 = ''_grpclb''" and "ToLower l1 = ''_tcp''"
      and "Select (c t) subject (health t) = (sockaddr, False)"
  shows "ServeDNS t now r =
           answer_query t now \<lparr>Req = r, Zone = zone\<rparr> ((SetReply r)\<lparr>Authoritative := True\<rparr>)
             (mgmt t) (fst (Select (c t) (mgmt t) (health t))) \<and>
         (fst (Select (c t) (mgmt t) (health t)) = None \<longrightarrow>
            (\<exists>m. ServeDNS t now r = Inr m \<and> Rcode m = dns_RcodeSuccess \<and> Answer m = [] \<and>
                 Ns m = soa now zone))"
proof -
  have route: "ServeDNS t now r =
           answer_query t now \<lparr>Req = r, Zone = zone\<rparr> ((SetReply r)\<lparr>Authoritative := True\<rparr>)
             (mgmt t) (fst (Select (c t) (mgmt t) (health t)))"
    using assms(2,3,4) by (simp add: ServeDNS_unfold [OF assms(1,5)])
  have "fst (Select (c t) (mgmt t) (health t)) = None \<Longrightarrow>
      ServeDNS t now r = Inr ((SetReply r)\<lparr>Authoritative := True, Ns := soa now zone\<rparr>)"
    by (simp add: route answer_query_def)
  then show ?thesis using route by (auto simp: SetReply_fields)
qed

theorem grpclb_uses_management_cluster_witness:
  "SplitDomainName ''_grpclb._tcp.web'' = [''_grpclb'', ''_tcp'', ''web''] \<and>
   ServeDNS (example_traffic example_client) 0
     (example_query ''_grpclb._tcp.web.example.org.'' dns_TypeSRV) =
   Inr ((SetReply (example_query ''_grpclb._tcp.web.example.org.'' dns_TypeSRV))
          \<lparr>Authoritative := True,
           Answer := [dns_SRV \<lparr>Name = ''_grpclb._tcp.web.example.org.'', Rrtype = dns_TypeSRV,
                                Class = dns_ClassINET, Ttl = 5\<rparr>
                        100 100 7000 ''endpoint-0.mgmt.example.org.''],
           Extra := [dns_A \<lparr>Name = ''endpoint-0.mgmt.example.org.'', Rrtype = dns_TypeA,
                             Class = dns_ClassINET, Ttl = 5\<rparr> [10, 0, 0, 9]]\<rparr>)"
proof -
  let ?t = "example_traffic example_client"
  let ?r = "example_query ''_grpclb._tcp.web.example.org.'' dns_TypeSRV"
  have h1: "match_origins (origins ?t) (Request_Name \<lparr>Req = ?r, Zone = []\<rparr>) =
      (''_grpclb._tcp.web'', ''example.org.'')"
    by (simp add: scenario_defs library_defs)
  have h2: "SplitDomainName ''_grpclb._tcp.web'' = [''_grpclb'', ''_tcp'', ''web'']"
    by (simp add: library_defs)
  have h3: "ToLower ''_grpclb'' = ''_grpclb''" and h4: "ToLower ''_tcp'' = ''_tcp''"
    by (simp_all add: library_defs)
  have h5: "Select (c ?t) ''_grpclb._tcp.web'' (health ?t) = (None, False)"
    by (simp add: scenario_defs)
  have ans: "answer_query ?t 0 \<lparr>Req = ?r, Zone = ''example.org.''\<rparr>
        ((SetReply ?r)\<lparr>Authoritative := True\<rparr>) (mgmt ?t) (fst (Select (c ?t) (mgmt ?t) (health ?t))) =
      Inr ((SetReply ?r)
          \<lparr>Authoritative := True,
           Answer := [dns_SRV \<lparr>Name = ''_grpclb._tcp.web.example.org.'', Rrtype = dns_TypeSRV,
                                Class = dns_ClassINET, Ttl = 5\<rparr>
                        100 100 7000 ''endpoint-0.mgmt.example.org.''],
           Extra := [dns_A \<lparr>Name = ''endpoint-0.mgmt.example.org.'', Rrtype = dns_TypeA,
                             Class = dns_ClassINET, Ttl = 5\<rparr> [10, 0, 0, 9]]\<rparr>)"
    by (simp add: answer_query_def scenario_defs itoa.simps library_defs Let_def)
  from grpclb_uses_management_cluster [OF h1 h2 h3 h4 h5, of 0]
  have "ServeDNS ?t 0 ?r =
      answer_query ?t 0 \<lparr>Req = ?r, Zone = ''example.org.''\<rparr>
        ((SetReply ?r)\<lparr>Authoritative := True\<rparr>) (mgmt ?t) (fst (Select (c ?t) (mgmt ?t) (health ?t)))"
    by blast
  with ans h2 show ?thesis by simp
qed

subsection \<open>A name under no configured zone\<close>

text \<open>
  C10. A query whose name has no configured zone as a suffix is answered by the handler
  itself, whatever the next handler of the chain is: the cluster identifier and the zone
  of the synthetic SOA are the empty string, the empty subject has no labels, and, the
  provider having no cluster of the empty name, the answer is NXDOMAIN with the synthetic
  SOA.
\<close>

theorem no_zone_nxdomain:
  assumes "\<forall>z \<in> set (origins t). \<not> HasSuffix (Request_Name \<lparr>Req = r, Zone = []\<rparr>) z"
      and "Select (c t) [] (health t) = (sockaddr, False)"
  shows "match_origins (origins t) (Request_Name \<lparr>Req = r, Zone = []\<rparr>) = ([], []) \<and>
         SplitDomainName [] = [] \<and>
         (\<exists>m. ServeDNS (t\<lparr>Next := h\<rparr>) now r = Inr m \<and> Rcode m = dns_RcodeNameError \<and>
              Answer m = [] \<and> Ns m = soa now [])"
proof -
  have mo: "match_origins (origins t) (Request_Name \<lparr>Req = r, Zone = []\<rparr>) = ([], [])"
    using assms(1) by (rule match_origins_none)
  have sp: "SplitDomainName [] = []" by (simp add: SplitDomainName_def)
  have mo': "match_origins (origins (t\<lparr>Next := h\<rparr>)) (Request_Name \<lparr>Req = r, Zone = []\<rparr>) = ([], [])"
    using mo by simp
  have sel': "Select (c (t\<lparr>Next := h\<rparr>)) [] (health (t\<lparr>Next := h\<rparr>)) = (sockaddr, False)"
    using assms(2) by simp
  have "ServeDNS (t\<lparr>Next := h\<rparr>) now r =
      Inr ((SetReply r)\<lparr>Authoritative := True, Ns := soa now [], Rcode := dns_RcodeNameError\<rparr>)"
    by (simp add: ServeDNS_unfold [OF mo' sel'] sp)
  then show ?thesis using mo sp by (simp add: SetReply_fields)
qed

theorem no_zone_nxdomain_witness:
  "match_origins [''example.org.'']
     (Request_Name \<lparr>Req = example_query ''web.example.com.'' dns_TypeA, Zone = []\<rparr>) = ([], []) \<and>
   (\<exists>m. ServeDNS ((example_traffic example_client)\<lparr>Next := (\<lambda>r. Inl IndexOutOfRange)\<rparr>) 0
           (example_query ''web.example.com.'' dns_TypeA) = Inr m \<and>
        Rcode m = dns_RcodeNameError \<and> Answer m = [] \<and> Ns m = soa 0 [])"
proof -
  let ?t = "example_traffic example_client"
  let ?r = "example_query ''web.example.com.'' dns_TypeA"
  have o: "origins ?t = [''example.org.'']"
    by (simp add: example_traffic_def)
  have h1: "\<forall>z \<in> set (origins ?t). \<not> HasSuffix (Request_Name \<lparr>Req = ?r, Zone = []\<rparr>) z"
    by (simp add: scenario_defs library_defs)
  have h2: "Select (c ?t) [] (health ?t) = (None, False)"
    by (simp add: scenario_defs)
  from no_zone_nxdomain [OF h1 h2, of "\<lambda>r. Inl IndexOutOfRange" 0]
  show ?thesis unfolding o by blast
qed

subsection \<open>The remaining scenarios of the spec\<close>

text \<open>
  Scenario 1: \<^verbatim>\<open>web.example.org.\<close> of type A is answered with the A record of the endpoint
  of \<^verbatim>\<open>web\<close>. Scenario 4: \<^verbatim>\<open>endpoint-5.web.example.org.\<close>, with a list of length 1, is
  answered NXDOMAIN.
\<close>

lemma scenario_web_A:
  "ServeDNS (example_traffic example_client) 0 (example_query ''web.example.org.'' dns_TypeA) =
   Inr ((SetReply (example_query ''web.example.org.'' dns_TypeA))
          \<lparr>Authoritative := True,
           Answer := [dns_A \<lparr>Name = ''web.example.org.'', Rrtype = dns_TypeA,
                              Class = dns_ClassINET, Ttl = 5\<rparr> [10, 0, 0, 1]]\<rparr>)"
  by (simp add: ServeDNS_def answer_query_def scenario_defs library_defs)

lemma scenario_endpoint_5:
  "ServeDNS (example_traffic example_client) 0
     (example_query ''endpoint-5.web.example.org.'' dns_TypeA) =
   Inr ((SetReply (example_query ''endpoint-5.web.example.org.'' dns_TypeA))
          \<lparr>Authoritative := True, Ns := soa 0 ''example.org.'', Rcode := dns_RcodeNameError\<rparr>)"
  by (simp add: ServeDNS_def serveEndpoint_def scenario_defs library_defs)

end
